theory Spec2Isabelle
  imports Complex_Main
begin

section \<open>Sea Turtle Quest: session state and reward engine\<close>

text \<open>
  The repository holds two variants of one game: \<^verbatim>\<open>src/src/App.tsx\<close> (the simpler
  variant; its definitions carry the suffix \<open>_App\<close>) and \<^verbatim>\<open>src/unnamed/part_000\<close>
  (the richer, team-based variant; its definitions keep the source's names).

  Conventions of the embedding.
  \<^item> JavaScript numbers that the game only ever uses as counters or millisecond
    timestamps are \<open>int\<close>; the result of \<^verbatim>\<open>Math.random()\<close> is a \<open>real\<close> in \<open>[0, 1)\<close>
    passed in as an argument.
  \<^item> \<^verbatim>\<open>T | null\<close> is \<open>T option\<close>; a \<^verbatim>\<open>Record<string, T>\<close> is a map \<open>string \<rightharpoonup> T\<close>.
  \<^item> The React state container is passed explicitly. A handler reads the state of
    the render it was created in (its closure) and issues functional updates
    \<^verbatim>\<open>setGameState(prev => ...)\<close>, which are applied in the order issued.
  \<^item> \<^verbatim>\<open>Date.now()\<close> is an argument \<open>now\<close> of every function that reads the clock; the
    readings that one run of a handler takes, a few instructions apart, are one value.
  \<^item> Sound cues are outputs: the list of cue tags handed to the sound manager. The
    clock, the pause button and the map page return them; the handlers of the zone and
    temple pages, whose cues no property below depends on, return the state only.
  \<^item> The display-only texts of the source (card names, emoji, log descriptions) are
    not part of the records below.
\<close>

subsection \<open>Data model\<close>

record GameSettings =
  maxActionChances :: int
  templeRequiredCoins :: int
  templeRequiredShells :: int
  timeLimit :: int

record GameLog =
  log_type :: string
  zone :: string
  result :: string
  reward :: int
  log_timestamp :: int

text \<open>An entry of \<^verbatim>\<open>CARD_REWARDS\<close>, and the same entry stamped when it is collected.\<close>

record CardReward =
  card_id :: string
  card_type :: string
  amount :: int
  rarity :: string

record CollectedCard = CardReward +
  timestamp :: int

text \<open>
  \<^verbatim>\<open>interface Player\<close> of \<^verbatim>\<open>App.tsx\<close>; the richer variant adds \<^verbatim>\<open>zoneProgress\<close> and
  \<^verbatim>\<open>answeredQuestions\<close>.
\<close>

record Player_App =
  player_id :: string
  name :: string
  color :: string
  coins :: int
  shells :: int
  completedZones :: "string list"
  actionChances :: int
  player_log :: "GameLog list"
  achievements :: "string list"
  totalScore :: int
  lastActive :: int
  isWinner :: bool
  winTime :: "int option"
  collectedCards :: "CollectedCard list"

record Player = Player_App +
  zoneProgress :: "string \<rightharpoonup> int"
  answeredQuestions :: "string \<rightharpoonup> int list"

text \<open>\<^verbatim>\<open>Partial<Player>\<close>: every field may be present (\<open>Some\<close>) or absent (\<open>None\<close>).\<close>

record PlayerUpdates_App =
  upd_player_id :: "string option"
  upd_name :: "string option"
  upd_color :: "string option"
  upd_coins :: "int option"
  upd_shells :: "int option"
  upd_completedZones :: "string list option"
  upd_actionChances :: "int option"
  upd_player_log :: "GameLog list option"
  upd_achievements :: "string list option"
  upd_totalScore :: "int option"
  upd_lastActive :: "int option"
  upd_isWinner :: "bool option"
  upd_winTime :: "int option option"
  upd_collectedCards :: "CollectedCard list option"

record PlayerUpdates = PlayerUpdates_App +
  upd_zoneProgress :: "(string \<rightharpoonup> int) option"
  upd_answeredQuestions :: "(string \<rightharpoonup> int list) option"

definition noUpdates_App :: PlayerUpdates_App where
  "noUpdates_App =
     \<lparr>upd_player_id = None, upd_name = None, upd_color = None, upd_coins = None,
      upd_shells = None, upd_completedZones = None, upd_actionChances = None,
      upd_player_log = None, upd_achievements = None, upd_totalScore = None,
      upd_lastActive = None, upd_isWinner = None, upd_winTime = None,
      upd_collectedCards = None\<rparr>"

definition noUpdates :: PlayerUpdates where
  "noUpdates =
     \<lparr>upd_player_id = None, upd_name = None, upd_color = None, upd_coins = None,
      upd_shells = None, upd_completedZones = None, upd_actionChances = None,
      upd_player_log = None, upd_achievements = None, upd_totalScore = None,
      upd_lastActive = None, upd_isWinner = None, upd_winTime = None,
      upd_collectedCards = None, upd_zoneProgress = None,
      upd_answeredQuestions = None\<rparr>"

text \<open>
  \<^verbatim>\<open>interface GameState\<close>; the richer variant adds \<^verbatim>\<open>isPaused\<close> and
  \<^verbatim>\<open>pauseStartTime\<close>. The type parameter is the variant's player record.
\<close>

record 'p GameState_App =
  currentPage :: string
  players :: "string \<rightharpoonup> 'p"
  currentPlayer :: "string option"
  gameWinner :: "string option"
  gameStartTime :: int
  gameEndTime :: "int option"
  soundEnabled :: bool
  gameSettings :: GameSettings
  gameMode :: string
  roomId :: string
  winnerTime :: "int option"

record 'p GameState_Ext = "'p GameState_App" +
  isPaused :: bool
  pauseStartTime :: "int option"

type_synonym GameState = "Player GameState_Ext"

subsection \<open>The single player-update path\<close>

text \<open>The object spread \<^verbatim>\<open>{ ...player, ...updates }\<close>, field by field.\<close>

definition spread :: "'a \<Rightarrow> 'a option \<Rightarrow> 'a" where
  "spread old new = (case new of None \<Rightarrow> old | Some v \<Rightarrow> v)"

definition spreadPlayer_App ::
  "'a Player_App_scheme \<Rightarrow> 'b PlayerUpdates_App_scheme \<Rightarrow> 'a Player_App_scheme" where
  "spreadPlayer_App player updates =
     player\<lparr>player_id := spread (player_id player) (upd_player_id updates),
            name := spread (name player) (upd_name updates),
            color := spread (color player) (upd_color updates),
            coins := spread (coins player) (upd_coins updates),
            shells := spread (shells player) (upd_shells updates),
            completedZones := spread (completedZones player) (upd_completedZones updates),
            actionChances := spread (actionChances player) (upd_actionChances updates),
            player_log := spread (player_log player) (upd_player_log updates),
            achievements := spread (achievements player) (upd_achievements updates),
            totalScore := spread (totalScore player) (upd_totalScore updates),
            lastActive := spread (lastActive player) (upd_lastActive updates),
            isWinner := spread (isWinner player) (upd_isWinner updates),
            winTime := spread (winTime player) (upd_winTime updates),
            collectedCards := spread (collectedCards player) (upd_collectedCards updates)\<rparr>"

definition spreadPlayer :: "Player \<Rightarrow> PlayerUpdates \<Rightarrow> Player" where
  "spreadPlayer player updates =
     (spreadPlayer_App player updates)
       \<lparr>zoneProgress := spread (zoneProgress player) (upd_zoneProgress updates),
        answeredQuestions :=
          spread (answeredQuestions player) (upd_answeredQuestions updates)\<rparr>"

text \<open>
  \<^verbatim>\<open>updatePlayer\<close> of \<^verbatim>\<open>App.tsx\<close> (lines 706-729): an unknown player id leaves the
  state as it is; otherwise the updates are spread over the player, \<^verbatim>\<open>lastActive\<close> is
  stamped and \<^verbatim>\<open>totalScore\<close> is assigned from the resulting fields.
\<close>

definition updatePlayer_App ::
  "string \<Rightarrow> PlayerUpdates_App \<Rightarrow> int \<Rightarrow> Player_App GameState_App \<Rightarrow> Player_App GameState_App"
  where
  "updatePlayer_App playerId updates now prev =
     (case players prev playerId of
        None \<Rightarrow> prev
      | Some player \<Rightarrow>
          let updatedPlayer = (spreadPlayer_App player updates)\<lparr>lastActive := now\<rparr>;
              updatedPlayer = updatedPlayer
                \<lparr>totalScore := coins updatedPlayer * 2 + shells updatedPlayer * 5 +
                                int (length (completedZones updatedPlayer)) * 10\<rparr>
          in prev\<lparr>players := (players prev)(playerId \<mapsto> updatedPlayer)\<rparr>)"

text \<open>\<^verbatim>\<open>updatePlayer\<close> of the richer variant (\<^verbatim>\<open>part_000\<close>, lines 808-831).\<close>

definition updatePlayer ::
  "string \<Rightarrow> PlayerUpdates \<Rightarrow> int \<Rightarrow> GameState \<Rightarrow> GameState" where
  "updatePlayer playerId updates now prev =
     (case players prev playerId of
        None \<Rightarrow> prev
      | Some player \<Rightarrow>
          let updatedPlayer = (spreadPlayer player updates)\<lparr>lastActive := now\<rparr>;
              updatedPlayer = updatedPlayer
                \<lparr>totalScore := coins updatedPlayer * 2 + shells updatedPlayer * 5 +
                                int (length (completedZones updatedPlayer)) * 10\<rparr>
          in prev\<lparr>players := (players prev)(playerId \<mapsto> updatedPlayer)\<rparr>)"

text \<open>The record that \<^verbatim>\<open>updatePlayer\<close> stores for a player, written in one piece.\<close>

definition storedPlayer :: "Player \<Rightarrow> PlayerUpdates \<Rightarrow> int \<Rightarrow> Player" where
  "storedPlayer player u now =
     (spreadPlayer player u)
       \<lparr>lastActive := now,
        totalScore :=
          spread (coins player) (upd_coins u) * 2 +
          spread (shells player) (upd_shells u) * 5 +
          int (length (spread (completedZones player) (upd_completedZones u))) * 10\<rparr>"

subsection \<open>Sound cues\<close>

text \<open>
  \<^verbatim>\<open>playSound\<close> (\<^verbatim>\<open>part_000\<close> lines 857-872, \<^verbatim>\<open>App.tsx\<close> lines 755-770): nothing when
  sound is off, otherwise the cue for a known tag.
\<close>

definition playSound :: "('p, 'a) GameState_App_scheme \<Rightarrow> string \<Rightarrow> string list" where
  "playSound gameState type =
     (if \<not> soundEnabled gameState then []
      else if type \<in> set [''success'', ''error'', ''click'', ''reward'', ''rare'', ''epic'',
                            ''legendary'', ''victory'', ''warning'', ''timeup'']
           then [type] else [])"

subsection \<open>Game clock\<close>

text \<open>The three state cells of the \<^verbatim>\<open>GameTimer\<close> component (richer variant).\<close>

record GameTimerState =
  timeLeft :: int
  hasWarned :: bool
  totalPauseTime :: int

text \<open>
  JavaScript truthiness of a \<^verbatim>\<open>number | null\<close> and of a \<^verbatim>\<open>string | null\<close>: \<^verbatim>\<open>null\<close>, \<open>0\<close>
  and the empty string are falsy.
\<close>

definition truthyNum :: "int option \<Rightarrow> bool" where
  "truthyNum v = (case v of None \<Rightarrow> False | Some n \<Rightarrow> n \<noteq> 0)"


text \<open>\<^verbatim>\<open>v || 0\<close> on a \<^verbatim>\<open>number | null | undefined\<close>.\<close>

definition orZero :: "int option \<Rightarrow> int" where
  "orZero v = (case v of None \<Rightarrow> 0 | Some n \<Rightarrow> n)"

text \<open>
  The interval callback of \<^verbatim>\<open>GameTimer\<close> (\<^verbatim>\<open>part_000\<close> lines 1050-1076), run once per
  tick with the clock reading \<open>now\<close>: the new component state and the cues played.
\<close>

definition GameTimer_tick ::
  "GameState \<Rightarrow> int \<Rightarrow> GameTimerState \<Rightarrow> GameTimerState \<times> string list" where
  "GameTimer_tick gameState now st =
     (if isPaused gameState then (st, [])
      else
        let currentPauseTime =
              (if truthyNum (pauseStartTime gameState)
               then totalPauseTime st + (now - orZero (pauseStartTime gameState))
               else totalPauseTime st);
            elapsed = now - gameStartTime gameState - currentPauseTime;
            remaining = max 0 (timeLimit (gameSettings gameState) * 60 * 1000 - elapsed);
            warn = (remaining \<le> 300000 \<and> remaining > 299000 \<and> \<not> hasWarned st)
        in (st\<lparr>timeLeft := remaining, hasWarned := (if warn then True else hasWarned st)\<rparr>,
            (if warn then playSound gameState ''warning'' else []) @
            (if remaining = 0 then playSound gameState ''timeup'' else [])))"

text \<open>
  The second effect of \<^verbatim>\<open>GameTimer\<close> (lines 1082-1086), run when \<^verbatim>\<open>isPaused\<close> or
  \<^verbatim>\<open>pauseStartTime\<close> changed.
\<close>

definition GameTimer_resumeEffect :: "GameState \<Rightarrow> int \<Rightarrow> GameTimerState \<Rightarrow> GameTimerState" where
  "GameTimer_resumeEffect gameState now st =
     (if \<not> isPaused gameState \<and> truthyNum (pauseStartTime gameState)
      then st\<lparr>totalPauseTime := totalPauseTime st + (now - orZero (pauseStartTime gameState))\<rparr>
      else st)"

text \<open>The interval callback of the simpler variant (\<^verbatim>\<open>App.tsx\<close> lines 869-884).\<close>

definition GameTimer_tick_App ::
  "Player_App GameState_App \<Rightarrow> int \<Rightarrow> GameTimerState \<Rightarrow> GameTimerState \<times> string list" where
  "GameTimer_tick_App gameState now st =
     (let elapsed = now - gameStartTime gameState;
          remaining = max 0 (timeLimit (gameSettings gameState) * 60 * 1000 - elapsed);
          warn = (remaining \<le> 300000 \<and> remaining > 299000 \<and> \<not> hasWarned st)
      in (st\<lparr>timeLeft := remaining, hasWarned := (if warn then True else hasWarned st)\<rparr>,
          (if warn then playSound gameState ''warning'' else []) @
          (if remaining = 0 then playSound gameState ''timeup'' else [])))"

text \<open>\<^verbatim>\<open>handlePause\<close> of the pause button (\<^verbatim>\<open>part_000\<close> lines 950-968).\<close>

definition handlePause :: "GameState \<Rightarrow> int \<Rightarrow> GameState \<times> string list" where
  "handlePause gameState now =
     (if isPaused gameState then
        let pauseDuration = now - orZero (pauseStartTime gameState)
        in (gameState\<lparr>isPaused := False, pauseStartTime := None,
                       gameStartTime := gameStartTime gameState + pauseDuration\<rparr>,
            playSound gameState ''click'')
      else
        (gameState\<lparr>isPaused := True, pauseStartTime := Some now\<rparr>,
         playSound gameState ''warning''))"

subsection \<open>Map page: entering a zone or the temple\<close>

text \<open>
  \<^verbatim>\<open>MapPage\<close> computes \<^verbatim>\<open>canEnterTemple\<close>, \<^verbatim>\<open>timeLeft\<close> and \<^verbatim>\<open>gameEnded\<close> in its render
  body (\<^verbatim>\<open>part_000\<close> lines 1672-1676, \<^verbatim>\<open>App.tsx\<close> lines 1438-1442); \<open>now\<close> is the clock
  reading of that render, and the click handlers close over these values.
\<close>

definition MapPage_timeLeft :: "('p, 'a) GameState_App_scheme \<Rightarrow> int \<Rightarrow> int" where
  "MapPage_timeLeft gameState now =
     max 0 (timeLimit (gameSettings gameState) * 60 * 1000 - (now - gameStartTime gameState))"

definition gameEnded :: "('p, 'a) GameState_App_scheme \<Rightarrow> int \<Rightarrow> bool" where
  "gameEnded gameState now = (MapPage_timeLeft gameState now = 0)"

definition canEnterTemple :: "'a Player_App_scheme \<Rightarrow> bool" where
  "canEnterTemple player = (coins player \<ge> 40 \<and> shells player \<ge> 15)"

definition canEnterTemple_App :: "'a Player_App_scheme \<Rightarrow> bool" where
  "canEnterTemple_App player = (coins player \<ge> 10 \<and> shells player \<ge> 3)"

text \<open>The temple button's \<^verbatim>\<open>onClick\<close> (\<^verbatim>\<open>part_000\<close> lines 1830-1837).\<close>

definition templeClick :: "GameState \<Rightarrow> int \<Rightarrow> Player \<Rightarrow> GameState \<times> string list" where
  "templeClick gameState now player =
     (if canEnterTemple player \<and> \<not> gameEnded gameState now \<and> \<not> isPaused gameState
      then (gameState\<lparr>currentPage := ''temple''\<rparr>, playSound gameState ''success'')
      else (gameState, playSound gameState ''error''))"

text \<open>A zone button's \<^verbatim>\<open>onClick\<close> (\<^verbatim>\<open>part_000\<close> lines 1866, 1876-1883).\<close>

definition canPlay :: "GameState \<Rightarrow> int \<Rightarrow> Player \<Rightarrow> bool" where
  "canPlay gameState now player =
     (actionChances player > 0 \<and> \<not> gameEnded gameState now \<and>
      \<not> isWinner player \<and> \<not> isPaused gameState)"

definition zoneClick :: "GameState \<Rightarrow> int \<Rightarrow> Player \<Rightarrow> string \<Rightarrow> GameState \<times> string list" where
  "zoneClick gameState now player zoneId =
     (if canPlay gameState now player
      then (gameState\<lparr>currentPage := ''zone-'' @ zoneId\<rparr>, playSound gameState ''click'')
      else (gameState, playSound gameState ''error''))"

text \<open>The same two handlers in \<^verbatim>\<open>App.tsx\<close> (lines 1599-1606 and 1634, 1644-1651).\<close>

definition templeClick_App ::
  "Player_App GameState_App \<Rightarrow> int \<Rightarrow> Player_App \<Rightarrow> Player_App GameState_App \<times> string list"
  where
  "templeClick_App gameState now player =
     (if canEnterTemple_App player \<and> \<not> gameEnded gameState now
      then (gameState\<lparr>currentPage := ''temple''\<rparr>, playSound gameState ''success'')
      else (gameState, playSound gameState ''error''))"

definition canPlay_App :: "Player_App GameState_App \<Rightarrow> int \<Rightarrow> Player_App \<Rightarrow> bool" where
  "canPlay_App gameState now player =
     (actionChances player > 0 \<and> \<not> gameEnded gameState now \<and> \<not> isWinner player)"

definition zoneClick_App ::
  "Player_App GameState_App \<Rightarrow> int \<Rightarrow> Player_App \<Rightarrow> string
     \<Rightarrow> Player_App GameState_App \<times> string list" where
  "zoneClick_App gameState now player zoneId =
     (if canPlay_App gameState now player
      then (gameState\<lparr>currentPage := ''zone-'' @ zoneId\<rparr>, playSound gameState ''click'')
      else (gameState, playSound gameState ''error''))"

subsection \<open>Leaderboard comparator\<close>

text \<open>
  The comparator handed to \<^verbatim>\<open>sort\<close> in \<^verbatim>\<open>Leaderboard.sortedPlayers\<close> (\<^verbatim>\<open>part_000\<close> lines
  1128-1148). A negative result puts \<open>a\<close> before \<open>b\<close>.
\<close>

definition sortedPlayers_compare :: "'a Player_App_scheme \<Rightarrow> 'a Player_App_scheme \<Rightarrow> int" where
  "sortedPlayers_compare a b =
     (if isWinner a \<and> \<not> isWinner b then - 1
      else if \<not> isWinner a \<and> isWinner b then 1
      else if isWinner a \<and> isWinner b then
        (if orZero (winTime a) \<noteq> orZero (winTime b)
         then orZero (winTime a) - orZero (winTime b)
         else totalScore b - totalScore a)
      else if totalScore a \<noteq> totalScore b then totalScore b - totalScore a
      else lastActive a - lastActive b)"

subsection \<open>Log and card collection\<close>

text \<open>
  \<^verbatim>\<open>addLog\<close> and \<^verbatim>\<open>addCard\<close> (\<^verbatim>\<open>part_000\<close> lines 833-851): the entry is stamped, the
  player's current list is read from the provider's rendered state \<open>gameState\<close>, and the
  extended list goes through \<^verbatim>\<open>updatePlayer\<close> onto the pending state \<open>prev\<close>.
\<close>

definition addLog ::
  "string \<Rightarrow> string \<times> string \<times> string \<times> int \<Rightarrow> int \<Rightarrow> GameState \<Rightarrow> GameState \<Rightarrow> GameState"
  where
  "addLog playerId entry now gameState prev =
     (case entry of (ty, zn, res, rew) \<Rightarrow>
        let newLog = \<lparr>log_type = ty, zone = zn, result = res, reward = rew,
                      log_timestamp = now\<rparr>
        in (case players gameState playerId of
              None \<Rightarrow> prev
            | Some player \<Rightarrow>
                updatePlayer playerId
                  (noUpdates\<lparr>upd_player_log := Some (player_log player @ [newLog])\<rparr>)
                  now prev))"

definition addCard :: "string \<Rightarrow> CardReward \<Rightarrow> int \<Rightarrow> GameState \<Rightarrow> GameState \<Rightarrow> GameState" where
  "addCard playerId rc now gameState prev =
     (let newCard = \<lparr>card_id = card_id rc, card_type = card_type rc,
                      amount = amount rc, rarity = rarity rc, timestamp = now\<rparr>
      in case players gameState playerId of
           None \<Rightarrow> prev
         | Some player \<Rightarrow>
             updatePlayer playerId
               (noUpdates\<lparr>upd_collectedCards := Some (collectedCards player @ [newCard])\<rparr>)
               now prev)"

text \<open>The same two functions in \<^verbatim>\<open>App.tsx\<close> (lines 731-749).\<close>

definition addLog_App ::
  "string \<Rightarrow> string \<times> string \<times> string \<times> int \<Rightarrow> int \<Rightarrow> Player_App GameState_App
     \<Rightarrow> Player_App GameState_App \<Rightarrow> Player_App GameState_App" where
  "addLog_App playerId entry now gameState prev =
     (case entry of (ty, zn, res, rew) \<Rightarrow>
        let newLog = \<lparr>log_type = ty, zone = zn, result = res, reward = rew,
                      log_timestamp = now\<rparr>
        in (case players gameState playerId of
              None \<Rightarrow> prev
            | Some player \<Rightarrow>
                updatePlayer_App playerId
                  (noUpdates_App\<lparr>upd_player_log := Some (player_log player @ [newLog])\<rparr>)
                  now prev))"

definition addCard_App ::
  "string \<Rightarrow> CardReward \<Rightarrow> int \<Rightarrow> Player_App GameState_App \<Rightarrow> Player_App GameState_App
     \<Rightarrow> Player_App GameState_App" where
  "addCard_App playerId rc now gameState prev =
     (let newCard = \<lparr>card_id = card_id rc, card_type = card_type rc,
                      amount = amount rc, rarity = rarity rc, timestamp = now\<rparr>
      in case players gameState playerId of
           None \<Rightarrow> prev
         | Some player \<Rightarrow>
             updatePlayer_App playerId
               (noUpdates_App\<lparr>upd_collectedCards := Some (collectedCards player @ [newCard])\<rparr>)
               now prev)"

subsection \<open>Zone page\<close>

datatype Difficulty = easy | medium | hard

record Question =
  question :: string
  options :: "string list"
  answer :: int
  explanation :: string
  difficulty :: Difficulty

text \<open>The question held in \<^verbatim>\<open>currentQuestion\<close> carries its index in the zone's bank.\<close>

record PresentedQuestion = Question +
  originalIndex :: int

text \<open>The state cells of \<^verbatim>\<open>ZonePage\<close>; \<open>'q\<close> is the type of the question held.\<close>

record 'q ZonePageState =
  taskType :: "string option"
  currentQuestion :: "'q option"
  selectedAnswer :: "int option"
  showResult :: bool
  cardReward :: "CardReward option"
  isAnswerCorrect :: bool

definition ZonePage_mount :: "'q ZonePageState" where
  "ZonePage_mount =
     \<lparr>taskType = None, currentQuestion = None, selectedAnswer = None, showResult = False,
      cardReward = None, isAnswerCorrect = False\<rparr>"

text \<open>
  \<^verbatim>\<open>gameState.currentPlayer ? gameState.players[gameState.currentPlayer] : null\<close>
  (\<^verbatim>\<open>part_000\<close> lines 1998 and 2522, \<^verbatim>\<open>App.tsx\<close> lines 1765 and 2189).
\<close>

definition currentPlayerOf :: "('p, 'a) GameState_App_scheme \<Rightarrow> 'p option" where
  "currentPlayerOf gameState =
     (case currentPlayer gameState of
        None \<Rightarrow> None
      | Some k \<Rightarrow> if k = [] then None else players gameState k)"

text \<open>\<^verbatim>\<open>Array.prototype.indexOf\<close>: the first position of the element, or \<open>-1\<close>.\<close>

fun indexOf_from :: "'a list \<Rightarrow> 'a \<Rightarrow> int \<Rightarrow> int" where
  "indexOf_from [] x i = - 1"
| "indexOf_from (y # ys) x i = (if y = x then i else indexOf_from ys x (i + 1))"

definition indexOf :: "'a list \<Rightarrow> 'a \<Rightarrow> int" where
  "indexOf xs x = indexOf_from xs x 0"

text \<open>
  The questions not yet answered (\<^verbatim>\<open>part_000\<close> line 2011):
  \<^verbatim>\<open>questions.filter((_, index) => !answeredQuestions.includes(index))\<close>.
\<close>

definition availableQuestions :: "Question list \<Rightarrow> int list \<Rightarrow> Question list" where
  "availableQuestions questions answered =
     map snd (filter (\<lambda>(index, q). int index \<notin> set answered) (enumerate 0 questions))"

text \<open>
  The mount effect of \<^verbatim>\<open>ZonePage\<close> (\<^verbatim>\<open>part_000\<close> lines 2001-2021). The question banks
  \<^verbatim>\<open>QUESTIONS\<close> are an argument; \<open>random\<close> is the value of \<^verbatim>\<open>Math.random()\<close>. The bank's
  entries are objects and \<^verbatim>\<open>indexOf\<close> compares them by identity, which is equality here
  for a bank without repeated entries. \<^verbatim>\<open>Math.random()\<close> returns a value in \<open>[0, 1)\<close>, which
  keeps \<^verbatim>\<open>randomIndex\<close> within the list; the definition is meant for such values only.
\<close>

definition ZonePage_effect ::
  "(string \<rightharpoonup> Question list) \<Rightarrow> string \<Rightarrow> Player option \<Rightarrow> real
     \<Rightarrow> PresentedQuestion ZonePageState \<Rightarrow> PresentedQuestion ZonePageState" where
  "ZonePage_effect QUESTIONS zoneId player random st =
     (case player of
        None \<Rightarrow> st
      | Some p \<Rightarrow>
          if zoneId \<in> set [''coral'', ''volcano'', ''kelp''] then
            let st1 = st\<lparr>taskType := Some ''question''\<rparr>;
                questions = (case QUESTIONS zoneId of None \<Rightarrow> [] | Some qs \<Rightarrow> qs);
                answered = (case answeredQuestions p zoneId of None \<Rightarrow> [] | Some xs \<Rightarrow> xs);
                available = availableQuestions questions answered
            in if length available > 0 then
                 let randomIndex = nat \<lfloor>random * real (length available)\<rfloor>;
                     q = available ! randomIndex;
                     questionIndex = indexOf questions q
                 in st1\<lparr>currentQuestion :=
                          Some \<lparr>question = question q, options = options q,
                                answer = answer q, explanation = explanation q,
                                difficulty = difficulty q,
                                originalIndex = questionIndex\<rparr>\<rparr>
               else st1
          else if zoneId \<in> set [''cave'', ''shipwreck''] then st\<lparr>taskType := Some ''card''\<rparr>
          else st)"

text \<open>\<^verbatim>\<open>handleQuestionAnswer\<close> of the richer variant (\<^verbatim>\<open>part_000\<close> lines 2023-2099).\<close>

definition handleQuestionAnswer ::
  "string \<Rightarrow> int \<Rightarrow> GameState \<Rightarrow> PresentedQuestion ZonePageState
     \<Rightarrow> GameState \<times> PresentedQuestion ZonePageState" where
  "handleQuestionAnswer zoneId now gameState st =
     (case (selectedAnswer st, currentQuestion st, currentPlayerOf gameState) of
        (Some sel, Some q, Some player) \<Rightarrow>
          let isCorrect = (sel = answer q);
              st1 = st\<lparr>isAnswerCorrect := isCorrect, showResult := True\<rparr>;
              answered = (case answeredQuestions player zoneId of None \<Rightarrow> [] | Some xs \<Rightarrow> xs);
              newAnsweredQuestions = answered @ [originalIndex q]
          in if isCorrect then
               let baseScore = (if difficulty q = easy then 10
                                else if difficulty q = medium then 15 else 20);
                   rewards =
                     (if zoneId = ''coral'' then
                        (0, (if difficulty q = easy then 1
                             else if difficulty q = medium then 2 else 3), baseScore)
                      else if zoneId = ''volcano'' \<or> zoneId = ''kelp'' then
                        ((if difficulty q = easy then 2
                          else if difficulty q = medium then 3 else 4), 0, baseScore)
                      else (0, 0, 0));
                   coinReward = fst rewards;
                   shellReward = fst (snd rewards);
                   scoreReward = snd (snd rewards);
                   progress = orZero (zoneProgress player zoneId) + 1;
                   isZoneCompleted = (progress \<ge> 3);
                   s1 = updatePlayer (player_id player)
                          (noUpdates
                             \<lparr>upd_coins := Some (coins player + coinReward),
                              upd_shells := Some (shells player + shellReward),
                              upd_totalScore := Some (totalScore player + scoreReward),
                              upd_actionChances := Some (actionChances player - 1),
                              upd_completedZones :=
                                Some (if isZoneCompleted \<and> zoneId \<notin> set (completedZones player)
                                      then completedZones player @ [zoneId]
                                      else completedZones player),
                              upd_zoneProgress := Some ((zoneProgress player)(zoneId \<mapsto> progress)),
                              upd_answeredQuestions :=
                                Some ((answeredQuestions player)(zoneId \<mapsto> newAnsweredQuestions))\<rparr>)
                          now gameState;
                   s2 = addLog (player_id player)
                          (''question'', zoneId, ''success'',
                           (if coinReward \<noteq> 0 then coinReward else shellReward))
                          now gameState s1
               in (s2, st1)
             else
               let s1 = updatePlayer (player_id player)
                          (noUpdates
                             \<lparr>upd_actionChances := Some (actionChances player - 1),
                              upd_answeredQuestions :=
                                Some ((answeredQuestions player)(zoneId \<mapsto> newAnsweredQuestions))\<rparr>)
                          now gameState;
                   s2 = addLog (player_id player) (''question'', zoneId, ''failed'', 0)
                          now gameState s1
               in (s2, st1)
      | _ \<Rightarrow> (gameState, st))"


subsection \<open>Card draw\<close>

datatype js_error = TypeError

text \<open>\<^verbatim>\<open>CARD_REWARDS\<close> (\<^verbatim>\<open>part_000\<close> lines 607-638, the same table in \<^verbatim>\<open>App.tsx\<close>).\<close>

definition mkCard :: "string \<Rightarrow> string \<Rightarrow> int \<Rightarrow> string \<Rightarrow> CardReward" where
  "mkCard i t a r = \<lparr>card_id = i, card_type = t, amount = a, rarity = r\<rparr>"

definition CARD_REWARDS :: "CardReward list" where
  "CARD_REWARDS =
     [mkCard ''golden_shell'' ''coins'' 3 ''common'',
      mkCard ''pearl_shell'' ''shells'' 2 ''common'',
      mkCard ''small_coin'' ''coins'' 1 ''common'',
      mkCard ''basic_shell'' ''shells'' 1 ''common'',
      mkCard ''dolphin_help'' ''action'' 1 ''common'',
      mkCard ''wave_splash'' ''skip'' 0 ''common'',
      mkCard ''small_blessing'' ''bonus'' 1 ''common'',
      mkCard ''starfish_gift'' ''coins'' 2 ''common'',
      mkCard ''magic_conch'' ''shells'' 3 ''rare'',
      mkCard ''turtle_blessing'' ''bonus'' 2 ''rare'',
      mkCard ''crystal_coin'' ''coins'' 4 ''rare'',
      mkCard ''whale_song'' ''action'' 2 ''rare'',
      mkCard ''seahorse_luck'' ''bonus'' 3 ''rare'',
      mkCard ''jellyfish_dance'' ''shells'' 4 ''rare'',
      mkCard ''pirate_treasure'' ''coins'' 6 ''epic'',
      mkCard ''mermaid_tear'' ''shells'' 5 ''epic'',
      mkCard ''kraken_power'' ''bonus'' 4 ''epic'',
      mkCard ''coral_crown'' ''coins'' 7 ''epic'',
      mkCard ''ocean_heart'' ''bonus'' 5 ''epic'',
      mkCard ''poseidon_trident'' ''bonus'' 8 ''legendary'',
      mkCard ''legendary_shell'' ''shells'' 10 ''legendary'',
      mkCard ''atlantis_coin'' ''coins'' 12 ''legendary'',
      mkCard ''leviathan_scale'' ''action'' 5 ''legendary'']"

text \<open>
  The rarity walk of \<^verbatim>\<open>handleCardDraw\<close> (\<^verbatim>\<open>part_000\<close> lines 2104-2117, verbatim the same
  in \<^verbatim>\<open>App.tsx\<close> lines 1832-1845). \<^verbatim>\<open>Object.entries\<close> yields the weights in the order the
  object literal declares them.
\<close>

definition rarityWeights :: "(string \<times> int) list" where
  "rarityWeights = [(''common'', 50), (''rare'', 30), (''epic'', 15), (''legendary'', 5)]"

definition totalWeight :: int where
  "totalWeight = fold (\<lambda>weight sum. sum + weight) (map snd rarityWeights) 0"

fun selectRarity_loop :: "real \<Rightarrow> (string \<times> int) list \<Rightarrow> int \<Rightarrow> string \<Rightarrow> string" where
  "selectRarity_loop random [] currentWeight selectedRarity = selectedRarity"
| "selectRarity_loop random ((r, weight) # rest) currentWeight selectedRarity =
     (if random \<le> real_of_int (currentWeight + weight) then r
      else selectRarity_loop random rest (currentWeight + weight) selectedRarity)"

definition selectRarity :: "real \<Rightarrow> string" where
  "selectRarity random = selectRarity_loop random rarityWeights 0 ''common''"

text \<open>
  Lines 2104-2120: the card drawn for the two values \<open>random1\<close>, \<open>random2\<close> of
  \<^verbatim>\<open>Math.random()\<close>. Reading the list out of range gives \<^verbatim>\<open>undefined\<close>, whose \<^verbatim>\<open>type\<close> the
  handler then fails to read.
\<close>

definition pickCard :: "real \<Rightarrow> real \<Rightarrow> js_error + CardReward" where
  "pickCard random1 random2 =
     (let random = random1 * real_of_int totalWeight;
          selectedRarity = selectRarity random;
          cardsOfRarity = filter (\<lambda>c. rarity c = selectedRarity) CARD_REWARDS;
          i = \<lfloor>random2 * real (length cardsOfRarity)\<rfloor>
      in if 0 \<le> i \<and> i < int (length cardsOfRarity) then Inr (cardsOfRarity ! nat i)
         else Inl TypeError)"

text \<open>The \<^verbatim>\<open>updates\<close> object built on lines 2133-2151 of \<^verbatim>\<open>part_000\<close>.\<close>

definition cardUpdates :: "string \<Rightarrow> Player \<Rightarrow> CardReward \<Rightarrow> PlayerUpdates" where
  "cardUpdates zoneId player randomCard =
     (let scoreReward = 15;
          updates = noUpdates
            \<lparr>upd_actionChances := Some (actionChances player - 1),
             upd_totalScore := Some (totalScore player + scoreReward),
             upd_completedZones :=
               Some (if zoneId \<in> set (completedZones player) then completedZones player
                     else completedZones player @ [zoneId])\<rparr>
      in if card_type randomCard = ''coins'' then
           updates\<lparr>upd_coins := Some (coins player + amount randomCard)\<rparr>
         else if card_type randomCard = ''shells'' then
           updates\<lparr>upd_shells := Some (shells player + amount randomCard)\<rparr>
         else if card_type randomCard = ''bonus'' then
           updates\<lparr>upd_coins := Some (coins player + amount randomCard),
                   upd_shells := Some (shells player + amount randomCard)\<rparr>
         else if card_type randomCard = ''action'' then
           updates\<lparr>upd_actionChances := Some (actionChances player + amount randomCard)\<rparr>
         else updates)"

text \<open>\<^verbatim>\<open>handleCardDraw\<close> of the richer variant (\<^verbatim>\<open>part_000\<close> lines 2101-2176).\<close>

definition handleCardDraw ::
  "string \<Rightarrow> real \<Rightarrow> real \<Rightarrow> int \<Rightarrow> GameState \<Rightarrow> PresentedQuestion ZonePageState
     \<Rightarrow> js_error + GameState \<times> PresentedQuestion ZonePageState" where
  "handleCardDraw zoneId random1 random2 now gameState st =
     (case currentPlayerOf gameState of
        None \<Rightarrow> Inr (gameState, st)
      | Some player \<Rightarrow>
          (case pickCard random1 random2 of
             Inl e \<Rightarrow> Inl e
           | Inr randomCard \<Rightarrow>
               let st1 = st\<lparr>cardReward := Some randomCard, showResult := True\<rparr>;
                   s1 = updatePlayer (player_id player) (cardUpdates zoneId player randomCard)
                          now gameState;
                   s2 = addCard (player_id player) randomCard now gameState s1;
                   s3 = addLog (player_id player)
                          (''card'', zoneId,
                           (if card_type randomCard = ''skip'' then ''skip'' else ''success''),
                           amount randomCard)
                          now gameState s2
               in Inr (s3, st1)))"

text \<open>The \<^verbatim>\<open>updates\<close> object of \<^verbatim>\<open>App.tsx\<close> (lines 1861-1876) and its \<^verbatim>\<open>handleCardDraw\<close>.\<close>

definition cardUpdates_App :: "string \<Rightarrow> Player_App \<Rightarrow> CardReward \<Rightarrow> PlayerUpdates_App" where
  "cardUpdates_App zoneId player randomCard =
     (let updates = noUpdates_App
            \<lparr>upd_actionChances := Some (actionChances player - 1),
             upd_completedZones :=
               Some (if zoneId \<in> set (completedZones player) then completedZones player
                     else completedZones player @ [zoneId])\<rparr>
      in if card_type randomCard = ''coins'' then
           updates\<lparr>upd_coins := Some (coins player + amount randomCard)\<rparr>
         else if card_type randomCard = ''shells'' then
           updates\<lparr>upd_shells := Some (shells player + amount randomCard)\<rparr>
         else if card_type randomCard = ''bonus'' then
           updates\<lparr>upd_coins := Some (coins player + amount randomCard),
                   upd_shells := Some (shells player + amount randomCard)\<rparr>
         else if card_type randomCard = ''action'' then
           updates\<lparr>upd_actionChances := Some (actionChances player + amount randomCard)\<rparr>
         else updates)"

definition handleCardDraw_App ::
  "string \<Rightarrow> real \<Rightarrow> real \<Rightarrow> int \<Rightarrow> Player_App GameState_App \<Rightarrow> Question ZonePageState
     \<Rightarrow> js_error + Player_App GameState_App \<times> Question ZonePageState" where
  "handleCardDraw_App zoneId random1 random2 now gameState st =
     (case currentPlayerOf gameState of
        None \<Rightarrow> Inr (gameState, st)
      | Some player \<Rightarrow>
          (case pickCard random1 random2 of
             Inl e \<Rightarrow> Inl e
           | Inr randomCard \<Rightarrow>
               let st1 = st\<lparr>cardReward := Some randomCard, showResult := True\<rparr>;
                   s1 = updatePlayer_App (player_id player)
                          (cardUpdates_App zoneId player randomCard) now gameState;
                   s2 = addCard_App (player_id player) randomCard now gameState s1;
                   s3 = addLog_App (player_id player)
                          (''card'', zoneId,
                           (if card_type randomCard = ''skip'' then ''skip'' else ''success''),
                           amount randomCard)
                          now gameState s2
               in Inr (s3, st1)))"

subsection \<open>Temple page\<close>

text \<open>
  The state cells of \<^verbatim>\<open>TemplePage\<close> (\<^verbatim>\<open>part_000\<close> lines 2515-2520); the text typed into
  the answer box enters \<^verbatim>\<open>handleSubmit\<close> only through the test on lines 2528-2532, whose
  outcome is the argument \<open>correct\<close> below.
\<close>

record TemplePageState =
  currentPuzzleIndex :: int
  correctAnswers :: int
  temple_showResult :: bool
  isCorrect :: bool
  isComplete :: bool




text \<open>The two delayed callbacks of \<^verbatim>\<open>handleSubmit\<close> (lines 2575-2579 and 2584-2589).\<close>

definition nextPuzzle :: "TemplePageState \<Rightarrow> TemplePageState" where
  "nextPuzzle st = st\<lparr>currentPuzzleIndex := currentPuzzleIndex st + 1,
                        temple_showResult := False\<rparr>"

definition restartGauntlet :: "TemplePageState \<Rightarrow> TemplePageState" where
  "restartGauntlet st = st\<lparr>currentPuzzleIndex := 0, correctAnswers := 0,
                             temple_showResult := False\<rparr>"



subsection \<open>Session set-up\<close>

definition GAME_SETTINGS :: GameSettings where
  "GAME_SETTINGS = \<lparr>maxActionChances = 5, templeRequiredCoins = 40,
                     templeRequiredShells = 15, timeLimit = 30\<rparr>"

definition GAME_SETTINGS_App :: GameSettings where
  "GAME_SETTINGS_App = \<lparr>maxActionChances = 5, templeRequiredCoins = 10,
                         templeRequiredShells = 3, timeLimit = 30\<rparr>"

text \<open>
  The provider's initial state (\<^verbatim>\<open>part_000\<close> lines 756-770, \<^verbatim>\<open>App.tsx\<close> lines 658-670);
  \<open>stamp\<close> is the decimal text of the clock reading used in the room id.
\<close>

definition initialState :: "int \<Rightarrow> string \<Rightarrow> GameState" where
  "initialState now stamp =
     \<lparr>currentPage = ''home'', players = Map.empty, currentPlayer = None, gameWinner = None,
      gameStartTime = now, gameEndTime = None, soundEnabled = True,
      gameSettings = GAME_SETTINGS, gameMode = ''setup'', roomId = ''room_'' @ stamp,
      winnerTime = None, isPaused = False, pauseStartTime = None\<rparr>"

definition initialState_App :: "int \<Rightarrow> string \<Rightarrow> Player_App GameState_App" where
  "initialState_App now stamp =
     \<lparr>currentPage = ''home'', players = Map.empty, currentPlayer = None, gameWinner = None,
      gameStartTime = now, gameEndTime = None, soundEnabled = True,
      gameSettings = GAME_SETTINGS_App, gameMode = ''setup'', roomId = ''room_'' @ stamp,
      winnerTime = None\<rparr>"

text \<open>
  \<^verbatim>\<open>addPlayer\<close> (\<^verbatim>\<open>part_000\<close> lines 780-806, \<^verbatim>\<open>App.tsx\<close> lines 680-704); \<open>stamp\<close> is the
  text that follows \<^verbatim>\<open>player_\<close> in the generated id (clock reading and random suffix).
\<close>

definition addPlayer :: "string \<Rightarrow> string \<Rightarrow> int \<Rightarrow> string \<Rightarrow> GameState \<Rightarrow> GameState" where
  "addPlayer playerName playerColor now stamp prev =
     (let playerId = ''player_'' @ stamp;
          newPlayer =
            \<lparr>player_id = playerId, name = playerName, color = playerColor, coins = 0,
             shells = 0, completedZones = [],
             actionChances = maxActionChances GAME_SETTINGS, player_log = [],
             achievements = [], totalScore = 0, lastActive = now, isWinner = False,
             winTime = None, collectedCards = [], zoneProgress = Map.empty,
             answeredQuestions = Map.empty\<rparr>
      in prev\<lparr>players := (players prev)(playerId \<mapsto> newPlayer)\<rparr>)"

definition addPlayer_App ::
  "string \<Rightarrow> string \<Rightarrow> int \<Rightarrow> string \<Rightarrow> Player_App GameState_App \<Rightarrow> Player_App GameState_App"
  where
  "addPlayer_App playerName playerColor now stamp prev =
     (let playerId = ''player_'' @ stamp;
          newPlayer =
            \<lparr>player_id = playerId, name = playerName, color = playerColor, coins = 0,
             shells = 0, completedZones = [],
             actionChances = maxActionChances GAME_SETTINGS_App, player_log = [],
             achievements = [], totalScore = 0, lastActive = now, isWinner = False,
             winTime = None, collectedCards = []\<rparr>
      in prev\<lparr>players := (players prev)(playerId \<mapsto> newPlayer)\<rparr>)"

text \<open>\<^verbatim>\<open>setCurrentPlayer\<close> (\<^verbatim>\<open>part_000\<close> lines 853-855).\<close>

definition setCurrentPlayer ::
  "string \<Rightarrow> ('p, 'a) GameState_App_scheme \<Rightarrow> ('p, 'a) GameState_App_scheme" where
  "setCurrentPlayer playerId prev = prev\<lparr>currentPlayer := Some playerId\<rparr>"

subsection \<open>Visits to a question zone\<close>









text \<open>
  The current player is registered under the id that the record carries, as
  \<^verbatim>\<open>addPlayer\<close> creates it.
\<close>

definition currentPlayerRegistered :: "GameState \<Rightarrow> bool" where
  "currentPlayerRegistered gameState =
     (case currentPlayer gameState of
        None \<Rightarrow> False
      | Some k \<Rightarrow> k \<noteq> [] \<and>
          (case players gameState k of None \<Rightarrow> False | Some player \<Rightarrow> player_id player = k))"

subsection \<open>Sample session\<close>

text \<open>
  A session with three players, created through \<^verbatim>\<open>addPlayer\<close>, on the map page, the
  first player current; and a small question bank for the coral zone.
\<close>

definition sampleSession :: GameState where
  "sampleSession =
     (setCurrentPlayer ''player_1''
        (addPlayer ''Cleo'' ''teal'' 30 ''3''
           (addPlayer ''Ben'' ''blue'' 20 ''2''
              (addPlayer ''Ann'' ''red'' 10 ''1'' (initialState 0 ''0'')))))
       \<lparr>currentPage := ''map''\<rparr>"

definition sampleSession_App :: "Player_App GameState_App" where
  "sampleSession_App =
     (setCurrentPlayer ''player_1''
        (addPlayer_App ''Ann'' ''blue'' 10 ''1'' (initialState_App 0 ''0'')))
       \<lparr>currentPage := ''map''\<rparr>"

definition samplePlayer :: "string \<Rightarrow> string \<Rightarrow> string \<Rightarrow> int \<Rightarrow> Player" where
  "samplePlayer k n c t =
     \<lparr>player_id = k, name = n, color = c, coins = 0, shells = 0, completedZones = [],
      actionChances = 5, player_log = [], achievements = [], totalScore = 0,
      lastActive = t, isWinner = False, winTime = None, collectedCards = [],
      zoneProgress = Map.empty, answeredQuestions = Map.empty\<rparr>"

definition samplePlayer_App :: Player_App where
  "samplePlayer_App =
     \<lparr>player_id = ''player_1'', name = ''Ann'', color = ''blue'', coins = 0, shells = 0,
      completedZones = [], actionChances = 5, player_log = [], achievements = [],
      totalScore = 0, lastActive = 10, isWinner = False, winTime = None,
      collectedCards = []\<rparr>"

definition sampleQuestion :: "string \<Rightarrow> int \<Rightarrow> Difficulty \<Rightarrow> Question" where
  "sampleQuestion txt a d =
     \<lparr>question = txt, options = [''A'', ''B'', ''C'', ''D''], answer = a,
      explanation = ''because'', difficulty = d\<rparr>"

definition sampleBank :: "string \<rightharpoonup> Question list" where
  "sampleBank =
     [''coral'' \<mapsto> [sampleQuestion ''q0'' 1 hard, sampleQuestion ''q1'' 2 easy,
                     sampleQuestion ''q2'' 0 medium]]"

text \<open>
  The zone page of the first player's first visit to the coral zone, with the effect's
  draw 0 and the right option of the question selected; three runs of visits; and a
  timer for the tick at which the time runs out.
\<close>

definition coralVisit :: "PresentedQuestion ZonePageState" where
  "coralVisit =
     (ZonePage_effect sampleBank ''coral'' (currentPlayerOf sampleSession) 0 ZonePage_mount)
       \<lparr>selectedAnswer := Some 1\<rparr>"




definition runningTimer :: GameTimerState where
  "runningTimer = \<lparr>timeLeft = 1000, hasWarned = True, totalPauseTime = 0\<rparr>"

text \<open>
  The sample sessions after the first player has been given 50 coins and 20 shells at
  time 500, and that player's record: enough for the temple of either variant.
\<close>

definition richSession :: GameState where
  "richSession =
     updatePlayer ''player_1'' (noUpdates\<lparr>upd_coins := Some 50, upd_shells := Some 20\<rparr>) 500
       sampleSession"

definition richPlayer :: Player where
  "richPlayer =
     (samplePlayer ''player_1'' ''Ann'' ''red'' 10)
       \<lparr>coins := 50, shells := 20, totalScore := 200, lastActive := 500\<rparr>"

definition richSession_App :: "Player_App GameState_App" where
  "richSession_App =
     updatePlayer_App ''player_1''
       (noUpdates_App\<lparr>upd_coins := Some 50, upd_shells := Some 20\<rparr>) 500 sampleSession_App"

definition richPlayer_App :: Player_App where
  "richPlayer_App =
     samplePlayer_App\<lparr>coins := 50, shells := 20, totalScore := 200, lastActive := 500\<rparr>"



section \<open>Verified properties\<close>

subsection \<open>Auxiliary facts\<close>

lemmas sample_defs = sampleSession_def setCurrentPlayer_def addPlayer_def initialState_def
  GAME_SETTINGS_def sampleSession_App_def addPlayer_App_def initialState_App_def
  GAME_SETTINGS_App_def Let_def

lemma sample_lookup_1:
  "players sampleSession ''player_1'' = Some (samplePlayer ''player_1'' ''Ann'' ''red'' 10)"
  by (simp add: sample_defs samplePlayer_def)

lemma sample_lookup_2:
  "players sampleSession ''player_2'' = Some (samplePlayer ''player_2'' ''Ben'' ''blue'' 20)"
  by (simp add: sample_defs samplePlayer_def)

lemma sample_lookup_App:
  "players sampleSession_App ''player_1'' = Some samplePlayer_App"
  by (simp add: sample_defs samplePlayer_App_def)

lemma compare_nonpos_iff:
  "sortedPlayers_compare a b \<le> 0 \<longleftrightarrow>
     (isWinner a \<and> \<not> isWinner b) \<or>
     (isWinner a \<and> isWinner b \<and>
        (orZero (winTime a) < orZero (winTime b) \<or>
         (orZero (winTime a) = orZero (winTime b) \<and> totalScore b \<le> totalScore a))) \<or>
     (\<not> isWinner a \<and> \<not> isWinner b \<and>
        (totalScore b < totalScore a \<or>
         (totalScore a = totalScore b \<and> lastActive a \<le> lastActive b)))"
  unfolding sortedPlayers_compare_def by auto

lemma compare_neg_iff:
  "sortedPlayers_compare a b < 0 \<longleftrightarrow>
     (isWinner a \<and> \<not> isWinner b) \<or>
     (isWinner a \<and> isWinner b \<and>
        (orZero (winTime a) < orZero (winTime b) \<or>
         (orZero (winTime a) = orZero (winTime b) \<and> totalScore b < totalScore a))) \<or>
     (\<not> isWinner a \<and> \<not> isWinner b \<and>
        (totalScore b < totalScore a \<or>
         (totalScore a = totalScore b \<and> lastActive a < lastActive b)))"
  unfolding sortedPlayers_compare_def by auto

lemma compare_pos_iff: "sortedPlayers_compare a b > 0 \<longleftrightarrow> sortedPlayers_compare b a < 0"
  unfolding sortedPlayers_compare_def by auto

lemma compare_trans:
  "sortedPlayers_compare a b \<le> 0 \<Longrightarrow> sortedPlayers_compare b c \<le> 0 \<Longrightarrow>
   sortedPlayers_compare a c \<le> 0"
  unfolding compare_nonpos_iff by (elim disjE conjE; simp)

lemma compare_total: "sortedPlayers_compare a b \<le> 0 \<or> sortedPlayers_compare b a \<le> 0"
  unfolding compare_nonpos_iff by auto

lemma totalWeight_100: "totalWeight = 100"
  by (simp add: totalWeight_def rarityWeights_def)

lemma selectRarity_cases:
  "selectRarity r =
     (if r \<le> 50 then ''common'' else if r \<le> 80 then ''rare''
      else if r \<le> 95 then ''epic'' else if r \<le> 100 then ''legendary'' else ''common'')"
  by (simp add: selectRarity_def rarityWeights_def)

lemma scaled_draw_range: "(\<lambda>u. u * real_of_int totalWeight) ` {0..<1} = {0..<100::real}"
proof (rule set_eqI, rule iffI)
  fix x :: real
  assume "x \<in> (\<lambda>u. u * real_of_int totalWeight) ` {0..<1}"
  then show "x \<in> {0..<100}" by (auto simp: totalWeight_100)
next
  fix x :: real
  assume x: "x \<in> {0..<100}"
  then have "x / 100 \<in> {0..<1}" by auto
  moreover have "x = (x / 100) * real_of_int totalWeight" by (simp add: totalWeight_100)
  ultimately show "x \<in> (\<lambda>u. u * real_of_int totalWeight) ` {0..<1}" by (rule rev_image_eqI)
qed


lemma updatePlayer_lookup:
  "players prev k = Some player \<Longrightarrow>
   players (updatePlayer k u now prev) k =
     Some ((spreadPlayer player u)
             \<lparr>lastActive := now,
              totalScore :=
                spread (coins player) (upd_coins u) * 2 +
                spread (shells player) (upd_shells u) * 5 +
                int (length (spread (completedZones player) (upd_completedZones u))) * 10\<rparr>)"
  by (simp add: updatePlayer_def Let_def spreadPlayer_def spreadPlayer_App_def)

lemma updatePlayer_App_lookup:
  "players prev k = Some player \<Longrightarrow>
   players (updatePlayer_App k u now prev) k =
     Some ((spreadPlayer_App player u)
             \<lparr>lastActive := now,
              totalScore :=
                spread (coins player) (upd_coins u) * 2 +
                spread (shells player) (upd_shells u) * 5 +
                int (length (spread (completedZones player) (upd_completedZones u))) * 10\<rparr>)"
  by (simp add: updatePlayer_App_def Let_def spreadPlayer_App_def)


lemma sample_registered:
  "currentPlayerRegistered sampleSession \<and>
   currentPlayerOf sampleSession = Some (samplePlayer ''player_1'' ''Ann'' ''red'' 10) \<and>
   gameWinner sampleSession = None"
  by (simp add: sample_defs currentPlayerRegistered_def currentPlayerOf_def samplePlayer_def)

lemma sample_registered_App:
  "currentPlayerOf sampleSession_App = Some samplePlayer_App \<and>
   players sampleSession_App (player_id samplePlayer_App) = Some samplePlayer_App"
  by (simp add: sample_defs currentPlayerOf_def samplePlayer_App_def)

text \<open>
  In a running game the timer and the map page compute the same remaining time: the
  timer's pause total is only ever increased by \<^verbatim>\<open>GameTimer_resumeEffect\<close>, which finds no
  pause start in a state that \<^verbatim>\<open>handlePause\<close> has produced.
\<close>

lemma clocks_agree:
  "\<not> isPaused gs \<Longrightarrow> pauseStartTime gs = None \<Longrightarrow> totalPauseTime st = 0 \<Longrightarrow>
   timeLeft (fst (GameTimer_tick gs now st)) = MapPage_timeLeft gs now"
  by (simp add: GameTimer_tick_def Let_def truthyNum_def MapPage_timeLeft_def)

lemma handlePause_pause_start:
  "isPaused (fst (handlePause gs now)) \<longleftrightarrow> pauseStartTime (fst (handlePause gs now)) \<noteq> None"
  by (simp add: handlePause_def Let_def)

text \<open>
  The two cues of the timer: once \<^verbatim>\<open>hasWarned\<close> is set it stays set and the warning is
  not played again; the time-up cue is played by every tick that finds no time left.
\<close>

lemma warning_guarded:
  "hasWarned st \<Longrightarrow>
   hasWarned (fst (GameTimer_tick gs now st)) \<and>
   ''warning'' \<notin> set (snd (GameTimer_tick gs now st))"
  by (simp add: GameTimer_tick_def Let_def playSound_def)

lemma warning_sets_guard:
  "''warning'' \<in> set (snd (GameTimer_tick gs now st)) \<Longrightarrow>
   hasWarned (fst (GameTimer_tick gs now st))"
  by (simp add: GameTimer_tick_def Let_def playSound_def split: if_splits)

lemma timeup_unguarded:
  "\<not> isPaused gs \<Longrightarrow> soundEnabled gs \<Longrightarrow>
   timeLeft (fst (GameTimer_tick gs now st)) = 0 \<Longrightarrow>
   ''timeup'' \<in> set (snd (GameTimer_tick gs now st))"
  by (simp add: GameTimer_tick_def Let_def playSound_def split: if_splits)







text \<open>Card draws.\<close>

lemma cardUpdates_actionChances:
  "upd_actionChances (cardUpdates zoneId player c) =
     Some (if card_type c = ''action'' then actionChances player + amount c
           else actionChances player - 1)"
  by (simp add: cardUpdates_def Let_def noUpdates_def)

lemma cardUpdates_App_actionChances:
  "upd_actionChances (cardUpdates_App zoneId player c) =
     Some (if card_type c = ''action'' then actionChances player + amount c
           else actionChances player - 1)"
  by (simp add: cardUpdates_App_def Let_def noUpdates_App_def)

lemma handleCardDraw_actionChances:
  assumes "currentPlayerOf gs = Some player" "players gs (player_id player) = Some player"
    "pickCard r1 r2 = Inr c"
  shows "\<exists>gs' st' p'. handleCardDraw zoneId r1 r2 now gs st = Inr (gs', st') \<and>
           players gs' (player_id player) = Some p' \<and>
           actionChances p' =
             (if card_type c = ''action'' then actionChances player + amount c
              else actionChances player - 1)"
proof -
  let ?k = "player_id player"
  let ?s1 = "updatePlayer ?k (cardUpdates zoneId player c) now gs"
  obtain p1 where p1: "players ?s1 ?k = Some p1"
    "actionChances p1 = (if card_type c = ''action'' then actionChances player + amount c
                         else actionChances player - 1)"
    using updatePlayer_lookup[OF assms(2), of "cardUpdates zoneId player c" now]
    by (simp add: spreadPlayer_def spreadPlayer_App_def cardUpdates_actionChances spread_def)
  let ?s2 = "addCard ?k c now gs ?s1"
  obtain p2 where p2: "players ?s2 ?k = Some p2" "actionChances p2 = actionChances p1"
    using assms(2) updatePlayer_lookup[OF p1(1)]
    by (simp add: addCard_def Let_def spreadPlayer_def spreadPlayer_App_def spread_def
          noUpdates_def)
  let ?e = "(''card'', zoneId, (if card_type c = ''skip'' then ''skip'' else ''success''),
             amount c)"
  let ?s3 = "addLog ?k ?e now gs ?s2"
  obtain p3 where p3: "players ?s3 ?k = Some p3" "actionChances p3 = actionChances p2"
    using assms(2) updatePlayer_lookup[OF p2(1)]
    by (simp add: addLog_def Let_def spreadPlayer_def spreadPlayer_App_def spread_def
          noUpdates_def)
  have "handleCardDraw zoneId r1 r2 now gs st =
          Inr (?s3, st\<lparr>cardReward := Some c, showResult := True\<rparr>)"
    using assms(1,3) by (simp add: handleCardDraw_def Let_def)
  then show ?thesis using p1 p2 p3 by simp
qed

lemma handleCardDraw_App_actionChances:
  assumes "currentPlayerOf gs = Some player" "players gs (player_id player) = Some player"
    "pickCard r1 r2 = Inr c"
  shows "\<exists>gs' st' p'. handleCardDraw_App zoneId r1 r2 now gs st = Inr (gs', st') \<and>
           players gs' (player_id player) = Some p' \<and>
           actionChances p' =
             (if card_type c = ''action'' then actionChances player + amount c
              else actionChances player - 1)"
proof -
  let ?k = "player_id player"
  let ?s1 = "updatePlayer_App ?k (cardUpdates_App zoneId player c) now gs"
  obtain p1 where p1: "players ?s1 ?k = Some p1"
    "actionChances p1 = (if card_type c = ''action'' then actionChances player + amount c
                         else actionChances player - 1)"
    using updatePlayer_App_lookup[OF assms(2), of "cardUpdates_App zoneId player c" now]
    by (simp add: spreadPlayer_App_def cardUpdates_App_actionChances spread_def)
  let ?s2 = "addCard_App ?k c now gs ?s1"
  obtain p2 where p2: "players ?s2 ?k = Some p2" "actionChances p2 = actionChances p1"
    using assms(2) updatePlayer_App_lookup[OF p1(1)]
    by (simp add: addCard_App_def Let_def spreadPlayer_App_def spread_def noUpdates_App_def)
  let ?e = "(''card'', zoneId, (if card_type c = ''skip'' then ''skip'' else ''success''),
             amount c)"
  let ?s3 = "addLog_App ?k ?e now gs ?s2"
  obtain p3 where p3: "players ?s3 ?k = Some p3" "actionChances p3 = actionChances p2"
    using assms(2) updatePlayer_App_lookup[OF p2(1)]
    by (simp add: addLog_App_def Let_def spreadPlayer_App_def spread_def noUpdates_App_def)
  have "handleCardDraw_App zoneId r1 r2 now gs st =
          Inr (?s3, st\<lparr>cardReward := Some c, showResult := True\<rparr>)"
    using assms(1,3) by (simp add: handleCardDraw_App_def Let_def)
  then show ?thesis using p1 p2 p3 by simp
qed

lemma pickCard_sample:
  "pickCard (99/100) (3/4) = Inr (mkCard ''leviathan_scale'' ''action'' 5 ''legendary'')"
  by (simp add: pickCard_def Let_def totalWeight_100 selectRarity_cases CARD_REWARDS_def
        mkCard_def)

text \<open>Every pair of values that \<^verbatim>\<open>Math.random()\<close> can return draws a card of the table.\<close>

lemma pickCard_total:
  assumes "0 \<le> r1" "r1 < 1" "0 \<le> r2" "r2 < 1"
  shows "\<exists>c. pickCard r1 r2 = Inr c \<and> c \<in> set CARD_REWARDS \<and>
             rarity c = selectRarity (r1 * 100)"
proof -
  let ?cs = "filter (\<lambda>c. rarity c = selectRarity (r1 * 100)) CARD_REWARDS"
  have ne: "0 < length ?cs"
    by (simp add: selectRarity_cases CARD_REWARDS_def mkCard_def)
  have lo: "0 \<le> \<lfloor>r2 * real (length ?cs)\<rfloor>" using assms by simp
  have "r2 * real (length ?cs) < real (length ?cs)" using assms ne by simp
  then have hi: "\<lfloor>r2 * real (length ?cs)\<rfloor> < int (length ?cs)" by linarith
  have idx: "nat \<lfloor>r2 * real (length ?cs)\<rfloor> < length ?cs" using lo hi by linarith
  have mem: "?cs ! nat \<lfloor>r2 * real (length ?cs)\<rfloor> \<in> set ?cs" using idx by (rule nth_mem)
  have "pickCard r1 r2 = Inr (?cs ! nat \<lfloor>r2 * real (length ?cs)\<rfloor>)"
    using lo hi by (simp add: pickCard_def Let_def totalWeight_100)
  then show ?thesis using mem by auto
qed






text \<open>The sample sessions with a player who can enter the temple.\<close>

lemma richSession_facts:
  "currentPlayerOf richSession = Some richPlayer \<and>
   players richSession (player_id richPlayer) = Some richPlayer \<and>
   gameStartTime richSession = 0 \<and> timeLimit (gameSettings richSession) = 30 \<and>
   \<not> isPaused richSession \<and> pauseStartTime richSession = None \<and> soundEnabled richSession \<and>
   currentPage richSession = ''map''"
  by (simp add: richSession_def richPlayer_def updatePlayer_def sample_defs currentPlayerOf_def
        samplePlayer_def spreadPlayer_def spreadPlayer_App_def spread_def noUpdates_def)

lemma richSession_App_facts:
  "currentPlayerOf richSession_App = Some richPlayer_App \<and>
   players richSession_App (player_id richPlayer_App) = Some richPlayer_App \<and>
   gameStartTime richSession_App = 0 \<and> timeLimit (gameSettings richSession_App) = 30 \<and>
   soundEnabled richSession_App \<and> currentPage richSession_App = ''map''"
  by (simp add: richSession_App_def richPlayer_App_def updatePlayer_App_def sample_defs
        currentPlayerOf_def samplePlayer_App_def spreadPlayer_App_def spread_def noUpdates_App_def)

lemma richPlayer_facts:
  "actionChances richPlayer = 5 \<and> \<not> isWinner richPlayer \<and> coins richPlayer = 50 \<and>
   shells richPlayer = 20 \<and> actionChances richPlayer_App = 5 \<and> \<not> isWinner richPlayer_App \<and>
   coins richPlayer_App = 50 \<and> shells richPlayer_App = 20"
  by (simp add: richPlayer_def richPlayer_App_def samplePlayer_def samplePlayer_App_def)

text \<open>Stored players.\<close>

lemma updatePlayer_players:
  "players (updatePlayer k u now prev) =
     (case players prev k of None \<Rightarrow> players prev
      | Some player \<Rightarrow> (players prev)(k \<mapsto> storedPlayer player u now))"
  by (simp add: updatePlayer_def Let_def spreadPlayer_def spreadPlayer_App_def storedPlayer_def
        split: option.splits)

lemma storedPlayer_sel:
  "player_id (storedPlayer p u now) = spread (player_id p) (upd_player_id u)"
  "coins (storedPlayer p u now) = spread (coins p) (upd_coins u)"
  "shells (storedPlayer p u now) = spread (shells p) (upd_shells u)"
  "completedZones (storedPlayer p u now) = spread (completedZones p) (upd_completedZones u)"
  "actionChances (storedPlayer p u now) = spread (actionChances p) (upd_actionChances u)"
  "answeredQuestions (storedPlayer p u now) =
     spread (answeredQuestions p) (upd_answeredQuestions u)"
  "zoneProgress (storedPlayer p u now) = spread (zoneProgress p) (upd_zoneProgress u)"
  "isWinner (storedPlayer p u now) = spread (isWinner p) (upd_isWinner u)"
  "totalScore (storedPlayer p u now) =
     coins (storedPlayer p u now) * 2 + shells (storedPlayer p u now) * 5 +
     int (length (completedZones (storedPlayer p u now))) * 10"
  by (simp_all add: storedPlayer_def spreadPlayer_def spreadPlayer_App_def)

text \<open>
  Answering a question: what is stored for the player, whether the answer is right or
  wrong, and the reward of a right answer in the coral zone.
\<close>

lemma handleQuestionAnswer_player:
  assumes cp: "currentPlayerOf gs = Some player"
    and reg: "players gs (player_id player) = Some player"
    and sel: "selectedAnswer st = Some sel" and cq: "currentQuestion st = Some q"
  shows "\<exists>p'. players (fst (handleQuestionAnswer zoneId now gs st)) (player_id player) = Some p' \<and>
           player_id p' = player_id player \<and>
           answeredQuestions p' zoneId =
             Some ((case answeredQuestions player zoneId of None \<Rightarrow> [] | Some xs \<Rightarrow> xs) @
                   [originalIndex q]) \<and>
           totalScore p' = coins p' * 2 + shells p' * 5 + int (length (completedZones p')) * 10 \<and>
           (sel = answer q \<and> zoneId = ''coral'' \<longrightarrow>
              coins p' = coins player \<and>
              shells p' = shells player +
                (if difficulty q = easy then 1 else if difficulty q = medium then 2 else 3) \<and>
              completedZones p' =
                (if orZero (zoneProgress player zoneId) + 1 \<ge> 3 \<and>
                    zoneId \<notin> set (completedZones player)
                 then completedZones player @ [zoneId] else completedZones player))"
proof (cases "sel = answer q")
  case True
  show ?thesis
    using cp reg sel cq True
    by (simp add: handleQuestionAnswer_def Let_def addLog_def updatePlayer_players
          storedPlayer_sel noUpdates_def spread_def)
next
  case False
  show ?thesis
    using cp reg sel cq False
    by (simp add: handleQuestionAnswer_def Let_def addLog_def updatePlayer_players
          storedPlayer_sel noUpdates_def spread_def)
qed







lemma availableQuestions_empty_iff:
  "availableQuestions qs answered = [] \<longleftrightarrow> (\<forall>i < length qs. int i \<in> set answered)"
proof
  assume e: "availableQuestions qs answered = []"
  show "\<forall>i < length qs. int i \<in> set answered"
  proof (intro allI impI, rule ccontr)
    fix i assume i: "i < length qs" "int i \<notin> set answered"
    then have "(i, qs ! i) \<in> set (enumerate 0 qs)" by (simp add: in_set_enumerate_eq)
    then have "qs ! i \<in> set (availableQuestions qs answered)"
      using i(2) by (force simp add: availableQuestions_def)
    then show False using e by simp
  qed
next
  assume "\<forall>i < length qs. int i \<in> set answered"
  then show "availableQuestions qs answered = []"
    by (auto simp add: availableQuestions_def filter_empty_conv in_set_enumerate_eq)
qed


text \<open>
  In a question zone the page shows no question exactly when every index of the bank
  has been answered.
\<close>

lemma ZonePage_effect_none_iff:
  assumes Q: "QUESTIONS zoneId = Some qs"
    and zone: "zoneId \<in> set [''coral'', ''volcano'', ''kelp'']"
  shows "currentQuestion (ZonePage_effect QUESTIONS zoneId (Some p) r ZonePage_mount) = None \<longleftrightarrow>
         (\<forall>i < length qs.
            int i \<in> set (case answeredQuestions p zoneId of None \<Rightarrow> [] | Some xs \<Rightarrow> xs))"
  using Q zone
    availableQuestions_empty_iff
      [of qs "case answeredQuestions p zoneId of None \<Rightarrow> [] | Some xs \<Rightarrow> xs"]
  by (auto simp add: ZonePage_effect_def ZonePage_mount_def Let_def)












text \<open>The sample visits.\<close>

lemma sample_effect:
  "ZonePage_effect sampleBank ''coral''
     (Some (samplePlayer ''player_1'' ''Ann'' ''red'' 10)) 0 ZonePage_mount =
     ZonePage_mount
       \<lparr>taskType := Some ''question'',
        currentQuestion :=
          Some \<lparr>question = ''q0'', options = [''A'', ''B'', ''C'', ''D''], answer = 1,
                explanation = ''because'', difficulty = hard, originalIndex = 0\<rparr>\<rparr>"
  by (simp add: ZonePage_effect_def sampleBank_def samplePlayer_def sampleQuestion_def
        availableQuestions_def Let_def indexOf_def)

lemma coralVisit_facts:
  "selectedAnswer coralVisit = Some 1 \<and>
   currentQuestion coralVisit =
     Some \<lparr>question = ''q0'', options = [''A'', ''B'', ''C'', ''D''], answer = 1,
           explanation = ''because'', difficulty = hard, originalIndex = 0\<rparr>"
  using sample_registered by (simp add: coralVisit_def sample_effect)












subsection \<open>C1: the score is a projection of the player's resources\<close>

text \<open>
  Claim C1. In both variants, after \<^verbatim>\<open>updatePlayer\<close> has been applied to a registered
  player, with any updates whatsoever (a \<^verbatim>\<open>totalScore\<close> among them or not), the stored
  player has the coins, shells and completed zones that result from the updates, and
  its \<^verbatim>\<open>totalScore\<close> is \<open>coins * 2 + shells * 5 + 10 *\<close> the number of completed zones.
\<close>

theorem updatePlayer_totalScore_projection:
  "(players prev playerId = Some player \<longrightarrow>
      (\<exists>p'. players (updatePlayer playerId updates now prev) playerId = Some p' \<and>
            coins p' = spread (coins player) (upd_coins updates) \<and>
            shells p' = spread (shells player) (upd_shells updates) \<and>
            completedZones p' = spread (completedZones player) (upd_completedZones updates) \<and>
            totalScore p' =
              coins p' * 2 + shells p' * 5 + int (length (completedZones p')) * 10)) \<and>
   (players prevA playerId = Some playerA \<longrightarrow>
      (\<exists>p'. players (updatePlayer_App playerId updatesA now prevA) playerId = Some p' \<and>
            coins p' = spread (coins playerA) (upd_coins updatesA) \<and>
            shells p' = spread (shells playerA) (upd_shells updatesA) \<and>
            completedZones p' = spread (completedZones playerA) (upd_completedZones updatesA) \<and>
            totalScore p' =
              coins p' * 2 + shells p' * 5 + int (length (completedZones p')) * 10))"
  by (simp add: updatePlayer_def updatePlayer_App_def Let_def spreadPlayer_def
        spreadPlayer_App_def)

theorem updatePlayer_totalScore_projection_witness:
  "players sampleSession ''player_1'' = Some (samplePlayer ''player_1'' ''Ann'' ''red'' 10) \<and>
   players sampleSession_App ''player_1'' = Some samplePlayer_App \<and>
   (\<exists>p'. players (updatePlayer ''player_1''
                    (noUpdates\<lparr>upd_coins := Some 3, upd_totalScore := Some 999\<rparr>) 50
                    sampleSession)
              ''player_1'' = Some p' \<and> totalScore p' = 6) \<and>
   (\<exists>p'. players (updatePlayer_App ''player_1''
                    (noUpdates_App\<lparr>upd_shells := Some 2, upd_totalScore := Some 999\<rparr>) 50
                    sampleSession_App)
              ''player_1'' = Some p' \<and> totalScore p' = 10)"
  using updatePlayer_totalScore_projection
          [where prev = sampleSession and playerId = "''player_1''"
             and player = "samplePlayer ''player_1'' ''Ann'' ''red'' 10"
             and updates = "noUpdates\<lparr>upd_coins := Some 3, upd_totalScore := Some 999\<rparr>"
             and now = 50 and prevA = sampleSession_App and playerA = samplePlayer_App
             and updatesA = "noUpdates_App\<lparr>upd_shells := Some 2, upd_totalScore := Some 999\<rparr>"]
        sample_lookup_1 sample_lookup_App
  by (auto simp add: spread_def noUpdates_def noUpdates_App_def samplePlayer_def
        samplePlayer_App_def)

subsection \<open>C2: the score bonus of a right answer\<close>

text \<open>
  Claim C2 asks that a right answer to a hard question in the coral zone add 3 shells
  and exactly 20 to \<^verbatim>\<open>totalScore\<close>. \<^verbatim>\<open>handleQuestionAnswer\<close> passes
  \<^verbatim>\<open>totalScore: currentPlayer.totalScore + scoreReward\<close> to \<^verbatim>\<open>updatePlayer\<close>, which
  overwrites it with the projection of coins, shells and completed zones. In the sample
  session the first player has no coins, no shells and score 0, is shown a hard
  question in the coral zone and selects its right option: afterwards the player has 3
  shells and score 15.
\<close>

theorem hard_coral_answer_scores_15:
  "coins (samplePlayer ''player_1'' ''Ann'' ''red'' 10) = 0 \<and>
   shells (samplePlayer ''player_1'' ''Ann'' ''red'' 10) = 0 \<and>
   totalScore (samplePlayer ''player_1'' ''Ann'' ''red'' 10) = 0 \<and>
   currentPlayerOf sampleSession = Some (samplePlayer ''player_1'' ''Ann'' ''red'' 10) \<and>
   map_option difficulty (currentQuestion coralVisit) = Some hard \<and>
   map_option answer (currentQuestion coralVisit) = selectedAnswer coralVisit \<and>
   players (fst (handleQuestionAnswer ''coral'' 4000 sampleSession coralVisit)) ''player_1'' \<noteq>
     None \<and>
   shells (the (players (fst (handleQuestionAnswer ''coral'' 4000 sampleSession coralVisit))
                  ''player_1'')) = 3 \<and>
   totalScore (the (players (fst (handleQuestionAnswer ''coral'' 4000 sampleSession coralVisit))
                      ''player_1'')) = 15"
proof -
  let ?ann = "samplePlayer ''player_1'' ''Ann'' ''red'' 10"
  let ?q = "\<lparr>question = ''q0'', options = [''A'', ''B'', ''C'', ''D''], answer = 1,
             explanation = ''because'', difficulty = hard, originalIndex = 0\<rparr>"
  have cp: "currentPlayerOf sampleSession = Some ?ann" using sample_registered by simp
  have reg: "players sampleSession (player_id ?ann) = Some ?ann"
    using sample_lookup_1 by (simp add: samplePlayer_def)
  have sel: "selectedAnswer coralVisit = Some 1"
    and cq: "currentQuestion coralVisit = Some ?q"
    using coralVisit_facts by simp_all
  obtain p' where p':
      "players (fst (handleQuestionAnswer ''coral'' 4000 sampleSession coralVisit))
         (player_id ?ann) = Some p'"
      "totalScore p' = coins p' * 2 + shells p' * 5 + int (length (completedZones p')) * 10"
      "coins p' = coins ?ann" "shells p' = shells ?ann + 3"
      "completedZones p' = completedZones ?ann"
    using handleQuestionAnswer_player[OF cp reg sel cq, of "''coral''" 4000]
    by (auto simp add: orZero_def samplePlayer_def)
  have k: "player_id ?ann = ''player_1''" by (simp add: samplePlayer_def)
  show ?thesis
    using p' cp sel cq unfolding k by (simp add: samplePlayer_def)
qed

subsection \<open>C3: the leaderboard comparator\<close>

text \<open>
  Claim C3. The comparator of the richer variant puts every winner before every
  non-winner; among winners the smaller \<^verbatim>\<open>winTime\<close> first and, on equal times, the larger
  \<^verbatim>\<open>totalScore\<close> first; among non-winners the larger \<^verbatim>\<open>totalScore\<close> first and, on equal
  scores, the smaller \<^verbatim>\<open>lastActive\<close> first. "At or before" (a result \<open>\<le> 0\<close>) is
  transitive, and any two players are comparable, so no cycle arises.
\<close>

theorem sortedPlayers_compare_total_preorder:
  "(isWinner w \<and> \<not> isWinner n \<longrightarrow>
      sortedPlayers_compare w n < 0 \<and> sortedPlayers_compare n w > 0) \<and>
   (isWinner w1 \<and> isWinner w2 \<longrightarrow>
      (sortedPlayers_compare w1 w2 < 0 \<longleftrightarrow>
         orZero (winTime w1) < orZero (winTime w2) \<or>
         (orZero (winTime w1) = orZero (winTime w2) \<and> totalScore w1 > totalScore w2))) \<and>
   (\<not> isWinner n1 \<and> \<not> isWinner n2 \<longrightarrow>
      (sortedPlayers_compare n1 n2 < 0 \<longleftrightarrow>
         totalScore n1 > totalScore n2 \<or>
         (totalScore n1 = totalScore n2 \<and> lastActive n1 < lastActive n2))) \<and>
   (sortedPlayers_compare a b \<le> 0 \<and> sortedPlayers_compare b c \<le> 0 \<longrightarrow>
      sortedPlayers_compare a c \<le> 0) \<and>
   (sortedPlayers_compare a b \<le> 0 \<or> sortedPlayers_compare b a \<le> 0)"
proof (intro conjI impI)
  assume "isWinner w \<and> \<not> isWinner n"
  then show "sortedPlayers_compare w n < 0" by (simp add: compare_neg_iff)
next
  assume "isWinner w \<and> \<not> isWinner n"
  then show "sortedPlayers_compare n w > 0" by (simp add: compare_pos_iff compare_neg_iff)
next
  assume "isWinner w1 \<and> isWinner w2"
  then show "sortedPlayers_compare w1 w2 < 0 \<longleftrightarrow>
               orZero (winTime w1) < orZero (winTime w2) \<or>
               (orZero (winTime w1) = orZero (winTime w2) \<and> totalScore w1 > totalScore w2)"
    by (simp add: compare_neg_iff)
next
  assume "\<not> isWinner n1 \<and> \<not> isWinner n2"
  then show "sortedPlayers_compare n1 n2 < 0 \<longleftrightarrow>
               totalScore n1 > totalScore n2 \<or>
               (totalScore n1 = totalScore n2 \<and> lastActive n1 < lastActive n2)"
    by (simp add: compare_neg_iff)
next
  assume "sortedPlayers_compare a b \<le> 0 \<and> sortedPlayers_compare b c \<le> 0"
  then show "sortedPlayers_compare a c \<le> 0" using compare_trans by blast
next
  show "sortedPlayers_compare a b \<le> 0 \<or> sortedPlayers_compare b a \<le> 0"
    by (rule compare_total)
qed

theorem sortedPlayers_compare_total_preorder_witness:
  "(let ann = (samplePlayer ''player_1'' ''Ann'' ''red'' 10)
                \<lparr>isWinner := True, winTime := Some 900, totalScore := 40\<rparr>;
        ben = (samplePlayer ''player_2'' ''Ben'' ''blue'' 20)
                \<lparr>isWinner := True, winTime := Some 900, totalScore := 30\<rparr>;
        cleo = (samplePlayer ''player_3'' ''Cleo'' ''teal'' 30)\<lparr>totalScore := 70\<rparr>;
        dan = (samplePlayer ''player_4'' ''Dan'' ''orange'' 40)\<lparr>totalScore := 70\<rparr>
    in sortedPlayers_compare ann cleo < 0 \<and> sortedPlayers_compare ann ben < 0 \<and>
       sortedPlayers_compare cleo dan < 0 \<and>
       sortedPlayers_compare ann ben \<le> 0 \<and> sortedPlayers_compare ben cleo \<le> 0 \<and>
       sortedPlayers_compare ann cleo \<le> 0)"
  using sortedPlayers_compare_total_preorder
          [where w = "(samplePlayer ''player_1'' ''Ann'' ''red'' 10)
                        \<lparr>isWinner := True, winTime := Some 900, totalScore := 40\<rparr>"
             and n = "(samplePlayer ''player_3'' ''Cleo'' ''teal'' 30)\<lparr>totalScore := 70\<rparr>"
             and ?w1.0 = "(samplePlayer ''player_1'' ''Ann'' ''red'' 10)
                            \<lparr>isWinner := True, winTime := Some 900, totalScore := 40\<rparr>"
             and ?w2.0 = "(samplePlayer ''player_2'' ''Ben'' ''blue'' 20)
                            \<lparr>isWinner := True, winTime := Some 900, totalScore := 30\<rparr>"
             and ?n1.0 = "(samplePlayer ''player_3'' ''Cleo'' ''teal'' 30)\<lparr>totalScore := 70\<rparr>"
             and ?n2.0 = "(samplePlayer ''player_4'' ''Dan'' ''orange'' 40)\<lparr>totalScore := 70\<rparr>"
             and a = "(samplePlayer ''player_1'' ''Ann'' ''red'' 10)
                        \<lparr>isWinner := True, winTime := Some 900, totalScore := 40\<rparr>"
             and b = "(samplePlayer ''player_2'' ''Ben'' ''blue'' 20)
                        \<lparr>isWinner := True, winTime := Some 900, totalScore := 30\<rparr>"
             and c = "(samplePlayer ''player_3'' ''Cleo'' ''teal'' 30)\<lparr>totalScore := 70\<rparr>"]
  by (simp add: samplePlayer_def orZero_def Let_def sortedPlayers_compare_def)

subsection \<open>C4: the session winner is set once\<close>



subsection \<open>C5: the rarity walk\<close>



subsection \<open>C6: questions already answered are not asked again\<close>




subsection \<open>C7: a pause does not count toward the limit\<close>

text \<open>
  Claim C7. Take a running game (not paused, no pause start recorded), pause it at \<open>t0\<close>
  and resume it at \<open>t1\<close>. While it is paused a tick leaves the timer as it is and plays
  nothing. The resume moves \<^verbatim>\<open>gameStartTime\<close> forward by exactly \<open>t1 - t0\<close> and leaves
  the timer's own pause total alone, so the remaining time computed \<open>d\<close> milliseconds
  after the resume is the one that would have been computed \<open>d\<close> milliseconds after
  \<open>t0\<close> without the pause, on the timer and on the map page alike; with \<open>d = 0\<close>, the
  value right after the resume is the value right before the pause.
\<close>

theorem pause_resume_preserves_countdown:
  "\<not> isPaused gs \<and> pauseStartTime gs = None \<longrightarrow>
     (let paused = fst (handlePause gs t0);
          resumed = fst (handlePause paused t1)
      in isPaused paused \<and>
         GameTimer_tick paused t st = (st, []) \<and>
         \<not> isPaused resumed \<and> pauseStartTime resumed = None \<and>
         gameStartTime resumed = gameStartTime gs + (t1 - t0) \<and>
         GameTimer_resumeEffect resumed t1 st = st \<and>
         timeLeft (fst (GameTimer_tick resumed (t1 + d) st)) =
           timeLeft (fst (GameTimer_tick gs (t0 + d) st)) \<and>
         MapPage_timeLeft resumed (t1 + d) = MapPage_timeLeft gs (t0 + d))"
  by (simp add: handlePause_def GameTimer_tick_def GameTimer_resumeEffect_def Let_def
        truthyNum_def orZero_def MapPage_timeLeft_def algebra_simps)

theorem pause_resume_preserves_countdown_witness:
  "\<not> isPaused sampleSession \<and> pauseStartTime sampleSession = None \<and>
   (let st = \<lparr>timeLeft = 0, hasWarned = False, totalPauseTime = 0\<rparr>;
        resumed = fst (handlePause (fst (handlePause sampleSession 600000)) 900000)
    in gameStartTime resumed = 300000 \<and>
       timeLeft (fst (GameTimer_tick resumed 900000 st)) = 1200000 \<and>
       timeLeft (fst (GameTimer_tick sampleSession 600000 st)) = 1200000)"
  using pause_resume_preserves_countdown
          [where gs = sampleSession and ?t0.0 = 600000 and ?t1.0 = 900000 and d = 0
             and st = "\<lparr>timeLeft = 0, hasWarned = False, totalPauseTime = 0\<rparr>"]
  by (simp add: sample_defs handlePause_def GameTimer_tick_def truthyNum_def orZero_def)

subsection \<open>C8: the cues of the game clock\<close>

text \<open>
  Claim C8 asks that the time-up cue be played once. The tick guards the warning cue
  with \<^verbatim>\<open>hasWarned\<close> but plays the time-up cue whenever the remaining time is zero: in the
  sample session (start at 0, limit 30 minutes, sound on) the tick at 1800000 ms and
  the next one, a second later, both play it.
\<close>

theorem timeup_cue_repeats:
  "timeLeft (fst (GameTimer_tick sampleSession 1800000 runningTimer)) = 0 \<and>
   snd (GameTimer_tick sampleSession 1800000 runningTimer) = [''timeup''] \<and>
   timeLeft (fst (GameTimer_tick sampleSession 1801000
                    (fst (GameTimer_tick sampleSession 1800000 runningTimer)))) = 0 \<and>
   snd (GameTimer_tick sampleSession 1801000
          (fst (GameTimer_tick sampleSession 1800000 runningTimer))) = [''timeup'']"
  by (simp add: sample_defs runningTimer_def GameTimer_tick_def truthyNum_def orZero_def
        playSound_def)

subsection \<open>C9: no entry after the countdown has run out\<close>

text \<open>
  The map page tests \<^verbatim>\<open>gameEnded\<close> before it lets a player into a zone or the temple: with
  the time left of its render at zero, both clicks leave the game state as it is, in
  both variants.
\<close>

lemma gate_at_render:
  "(MapPage_timeLeft gs now = 0 \<longrightarrow>
      zoneClick gs now player zoneId = (gs, playSound gs ''error'') \<and>
      templeClick gs now player = (gs, playSound gs ''error'')) \<and>
   (MapPage_timeLeft gsA now = 0 \<longrightarrow>
      zoneClick_App gsA now playerA zoneId = (gsA, playSound gsA ''error'') \<and>
      templeClick_App gsA now playerA = (gsA, playSound gsA ''error''))"
  by (simp add: zoneClick_def templeClick_def zoneClick_App_def templeClick_App_def
        canPlay_def canPlay_App_def gameEnded_def)

text \<open>
  Claim C9 asks that every entry be rejected once the countdown has reached zero. The
  page computes \<^verbatim>\<open>gameEnded\<close> in its render body, and a tick of the timer changes the
  timer's own state only, so the page is not rendered again when the time runs out.
  In the sample sessions (start at 0, limit 30 minutes) the map page is rendered at
  1799000 ms with one second left; the tick at 1800000 ms finds no time left and plays
  the time-up cue; the click handlers of the page are still those of the render at
  1799000 ms, and a click on a zone or on the temple made after that tick enters it.
\<close>

theorem entry_accepted_after_timeup:
  "currentPlayerOf richSession = Some richPlayer \<and>
   currentPlayerOf richSession_App = Some richPlayer_App \<and>
   MapPage_timeLeft richSession 1799000 = 1000 \<and>
   MapPage_timeLeft richSession_App 1799000 = 1000 \<and>
   timeLeft (fst (GameTimer_tick richSession 1800000 runningTimer)) = 0 \<and>
   snd (GameTimer_tick richSession 1800000 runningTimer) = [''timeup''] \<and>
   timeLeft (fst (GameTimer_tick_App richSession_App 1800000 runningTimer)) = 0 \<and>
   snd (GameTimer_tick_App richSession_App 1800000 runningTimer) = [''timeup''] \<and>
   zoneClick richSession 1799000 richPlayer ''coral'' =
     (richSession\<lparr>currentPage := ''zone-coral''\<rparr>, [''click'']) \<and>
   templeClick richSession 1799000 richPlayer =
     (richSession\<lparr>currentPage := ''temple''\<rparr>, [''success'']) \<and>
   zoneClick_App richSession_App 1799000 richPlayer_App ''coral'' =
     (richSession_App\<lparr>currentPage := ''zone-coral''\<rparr>, [''click'']) \<and>
   templeClick_App richSession_App 1799000 richPlayer_App =
     (richSession_App\<lparr>currentPage := ''temple''\<rparr>, [''success''])"
  using richSession_facts richSession_App_facts richPlayer_facts
  by (simp add: MapPage_timeLeft_def GameTimer_tick_def GameTimer_tick_App_def runningTimer_def
        truthyNum_def playSound_def zoneClick_def templeClick_def zoneClick_App_def
        templeClick_App_def canPlay_def canPlay_App_def gameEnded_def canEnterTemple_def
        canEnterTemple_App_def Let_def)

subsection \<open>C10: an action card gives the spent chance back\<close>

text \<open>
  Claim C10. In both variants, when the registered current player draws the card \<open>c\<close>,
  the draw succeeds and the stored player's \<^verbatim>\<open>actionChances\<close> is the old value plus the
  card's amount if the card's type is \<^verbatim>\<open>action\<close> (no cap applies), and the old value
  minus one for every other type.
\<close>

theorem action_card_refunds_draw:
  "(currentPlayerOf gs = Some player \<and> players gs (player_id player) = Some player \<and>
    pickCard r1 r2 = Inr c \<longrightarrow>
      (\<exists>gs' st' p'. handleCardDraw zoneId r1 r2 now gs st = Inr (gs', st') \<and>
           players gs' (player_id player) = Some p' \<and>
           actionChances p' =
             (if card_type c = ''action'' then actionChances player + amount c
              else actionChances player - 1))) \<and>
   (currentPlayerOf gsA = Some playerA \<and> players gsA (player_id playerA) = Some playerA \<and>
    pickCard r1 r2 = Inr c \<longrightarrow>
      (\<exists>gs' st' p'. handleCardDraw_App zoneId r1 r2 now gsA stA = Inr (gs', st') \<and>
           players gs' (player_id playerA) = Some p' \<and>
           actionChances p' =
             (if card_type c = ''action'' then actionChances playerA + amount c
              else actionChances playerA - 1)))"
  using handleCardDraw_actionChances[of gs player r1 r2 c zoneId now st]
        handleCardDraw_App_actionChances[of gsA playerA r1 r2 c zoneId now stA]
  by blast

theorem action_card_refunds_draw_witness:
  "currentPlayerOf sampleSession = Some (samplePlayer ''player_1'' ''Ann'' ''red'' 10) \<and>
   players sampleSession ''player_1'' = Some (samplePlayer ''player_1'' ''Ann'' ''red'' 10) \<and>
   currentPlayerOf sampleSession_App = Some samplePlayer_App \<and>
   players sampleSession_App ''player_1'' = Some samplePlayer_App \<and>
   pickCard (99/100) (3/4) = Inr (mkCard ''leviathan_scale'' ''action'' 5 ''legendary'') \<and>
   (\<exists>gs' st' p'. handleCardDraw ''cave'' (99/100) (3/4) 7000 sampleSession ZonePage_mount =
                    Inr (gs', st') \<and>
                 players gs' ''player_1'' = Some p' \<and> actionChances p' = 10) \<and>
   (\<exists>gs' st' p'. handleCardDraw_App ''cave'' (99/100) (3/4) 7000 sampleSession_App
                    ZonePage_mount = Inr (gs', st') \<and>
                 players gs' ''player_1'' = Some p' \<and> actionChances p' = 10)"
  using action_card_refunds_draw
          [where gs = sampleSession and player = "samplePlayer ''player_1'' ''Ann'' ''red'' 10"
             and ?r1.0 = "99/100" and ?r2.0 = "3/4"
             and c = "mkCard ''leviathan_scale'' ''action'' 5 ''legendary''"
             and zoneId = "''cave''" and now = 7000 and st = ZonePage_mount
             and gsA = sampleSession_App and playerA = samplePlayer_App
             and stA = ZonePage_mount]
        sample_registered sample_lookup_1 sample_registered_App sample_lookup_App
        pickCard_sample
  by (simp add: samplePlayer_def samplePlayer_App_def mkCard_def)

end
